theory Spec2Isabelle
  imports Main
begin

section \<open>Python values used by the video merger\<close>

text \<open>
  The texts that the command-line processor handles (paths, command lines, captured
  output, messages) are modelled as \<^typ>\<open>string\<close>, lists of 8-bit characters; the file
  names of an upload are arbitrary Unicode text and are modelled as lists of code points
  (see the upload filter).  Python lists are HOL lists, and a raised exception is a value: its class name and the text
  that \<^verbatim>\<open>str(e)\<close> gives.  Every exception of the model is an instance of Python's
  \<^verbatim>\<open>Exception\<close>, the class that the handlers of the source catch; asynchronous
  interrupts (\<^verbatim>\<open>KeyboardInterrupt\<close>) are outside the model.
\<close>

datatype pyexc = PyExc (exc_class: string) (exc_str: string)

text \<open>\<^verbatim>\<open>xs[i]\<close> for a non-negative index: IndexError when out of range.\<close>

definition list_index :: "'a list \<Rightarrow> nat \<Rightarrow> pyexc + 'a" where
  "list_index xs i =
     (if i < length xs then Inr (xs ! i)
      else Inl (PyExc ''IndexError'' ''list index out of range''))"

text \<open>
  \<^verbatim>\<open>s.split(sep)\<close> for a one-character separator: a scan from the left that closes
  the current piece at every separator.  The piece under construction is kept reversed.
\<close>

fun split_scan :: "char \<Rightarrow> string \<Rightarrow> string \<Rightarrow> string list" where
  "split_scan sep acc [] = [rev acc]"
| "split_scan sep acc (c # cs) =
     (if c = sep then rev acc # split_scan sep [] cs
      else split_scan sep (c # acc) cs)"

definition split :: "char \<Rightarrow> string \<Rightarrow> string list" where
  "split sep s = split_scan sep [] s"

text \<open>
  \<^verbatim>\<open>s.rsplit(sep, maxsplit)\<close> for a one-character separator: a scan from the right
  that splits at a separator while splits remain.  The scan runs over the reversed
  string; the piece under construction is in reading order.  It is written for any
  type of character, bytes or code points.
\<close>

fun rsplit_scan :: "'a \<Rightarrow> nat \<Rightarrow> 'a list \<Rightarrow> 'a list \<Rightarrow> 'a list list" where
  "rsplit_scan sep n acc [] = [acc]"
| "rsplit_scan sep n acc (c # cs) =
     (if c = sep \<and> 0 < n then rsplit_scan sep (n - 1) [] cs @ [acc]
      else rsplit_scan sep n (c # acc) cs)"

definition rsplit :: "'a \<Rightarrow> nat \<Rightarrow> 'a list \<Rightarrow> 'a list list" where
  "rsplit sep maxsplit s = rsplit_scan sep maxsplit [] (rev s)"

text \<open>
  A Python \<^verbatim>\<open>str\<close> as the list of its Unicode code points; \<open>py\<close> reads an ASCII
  literal as such a list.
\<close>

type_synonym codepoint = nat

type_synonym pystr = "codepoint list"

definition py :: "string \<Rightarrow> pystr" where
  "py s = map of_char s"

definition full_stop :: codepoint where
  "full_stop = 46"

text \<open>\<^verbatim>\<open>str(n)\<close> for a non-negative integer: its decimal digits.\<close>

definition digit_char :: "nat \<Rightarrow> char" where
  "digit_char d = char_of (48 + d)"

fun str_nat :: "nat \<Rightarrow> string" where
  "str_nat n = (if n < 10 then [digit_char n] else str_nat (n div 10) @ [digit_char (n mod 10)])"

declare str_nat.simps [simp del]

text \<open>
  The number that a text of decimal digits denotes, read digit by digit from the left.
  It is what \<^verbatim>\<open>str\<close> of a count is measured against.
\<close>

definition digit_value :: "char \<Rightarrow> nat" where
  "digit_value c = of_char c - 48"

definition decimal_value :: "string \<Rightarrow> nat" where
  "decimal_value s = foldl (\<lambda>acc c. 10 * acc + digit_value c) 0 s"

section \<open>The upload filter (app.py)\<close>

text \<open>
  \<^verbatim>\<open>
  def allowed_file(filename, allowed_extensions):
      return "." in filename and filename.rsplit(".", 1)[1].lower() in allowed_extensions
  \<close>
  The conjunction is short-circuit: the subscript is evaluated only when the name has a
  dot.  The subscript is kept as a fallible read.

  \<^verbatim>\<open>str.lower()\<close> applies the case table of the Unicode database that the Python
  runtime carries; the table is no part of the repository.  The function takes it as the
  parameter \<open>str_lower\<close>, a function from text to text (lower-casing can change the
  length of a text).
\<close>

definition allowed_file :: "(pystr \<Rightarrow> pystr) \<Rightarrow> pystr \<Rightarrow> pystr set \<Rightarrow> pyexc + bool" where
  "allowed_file str_lower filename allowed_extensions =
     (if full_stop \<in> set filename
      then (case list_index (rsplit full_stop 1 filename) 1 of
              Inl e \<Rightarrow> Inl e
            | Inr ext \<Rightarrow> Inr (str_lower ext \<in> allowed_extensions))
      else Inr False)"

text \<open>The text after the last dot of a name, read off the name directly.\<close>

definition after_last_dot :: "pystr \<Rightarrow> pystr" where
  "after_last_dot f = rev (takeWhile (\<lambda>c. c \<noteq> full_stop) (rev f))"

text \<open>\<^verbatim>\<open>ALLOWED_EXTENSIONS\<close> of utils/config.py, the set the upload route passes.\<close>

definition ALLOWED_EXTENSIONS :: "pystr set" where
  "ALLOWED_EXTENSIONS = {py ''mp4'', py ''avi'', py ''mov'', py ''mkv'', py ''webm''}"

section \<open>The outside world\<close>

text \<open>
  The file system is a map from a path to the text of the file there; a path names a
  file by its spelling.  A program on the search path is a function of its command line
  and the file system it finds: it either makes \<^verbatim>\<open>subprocess.run\<close> raise (no such
  executable, a timeout) or completes with an exit status and its captured output, and
  it may change the file system.  Each \<^verbatim>\<open>print\<close> call adds one entry to its stream.
  \<open>run_calls\<close> records every call of \<^verbatim>\<open>subprocess.run\<close>: the command line it was
  given and the file system the child would see.
\<close>

type_synonym path = string

type_synonym filesystem = "path \<rightharpoonup> string"

record completed_process =
  returncode :: int
  stdout :: string
  stderr :: string

type_synonym program =
  "string list \<Rightarrow> filesystem \<Rightarrow> (pyexc + completed_process) \<times> filesystem"

record world =
  files :: filesystem
  sys_stdout :: "string list"
  sys_stderr :: "string list"
  run_calls :: "(string list \<times> filesystem) list"

definition print_out :: "string \<Rightarrow> world \<Rightarrow> world" where
  "print_out s w = w\<lparr>sys_stdout := sys_stdout w @ [s]\<rparr>"

definition print_err :: "string \<Rightarrow> world \<Rightarrow> world" where
  "print_err s w = w\<lparr>sys_stderr := sys_stderr w @ [s]\<rparr>"

definition os_path_exists :: "path \<Rightarrow> world \<Rightarrow> bool" where
  "os_path_exists p w = (files w p \<noteq> None)"

definition os_remove :: "path \<Rightarrow> world \<Rightarrow> (pyexc + unit) \<times> world" where
  "os_remove p w =
     (case files w p of
        None \<Rightarrow> (Inl (PyExc ''FileNotFoundError'' p), w)
      | Some _ \<Rightarrow> (Inr (), w\<lparr>files := (files w)(p := None)\<rparr>))"

text \<open>\<^verbatim>\<open>open(p, 'w')\<close> creates the file or empties it; \<^verbatim>\<open>f.write(s)\<close> appends.\<close>

definition open_w :: "path \<Rightarrow> world \<Rightarrow> world" where
  "open_w p w = w\<lparr>files := (files w)(p \<mapsto> [])\<rparr>"

definition file_write :: "path \<Rightarrow> string \<Rightarrow> world \<Rightarrow> world" where
  "file_write p s w =
     w\<lparr>files := (files w)(p \<mapsto> (case files w p of None \<Rightarrow> s | Some old \<Rightarrow> old @ s))\<rparr>"

text \<open>
  The web layer opens a path that is built from the request, and the operating system
  can refuse it: no such directory, no permission, a directory at that path.  Its answer
  is the parameter \<open>os_open\<close>: the exception that \<^verbatim>\<open>open(p, 'w')\<close> raises on this file
  system, or none.  A refused open leaves the file system as it is.  The list file of
  the command-line merge is a fixed name in the working directory and is taken to open.
\<close>

type_synonym opener = "path \<Rightarrow> filesystem \<Rightarrow> pyexc option"

definition open_for_writing :: "opener \<Rightarrow> path \<Rightarrow> world \<Rightarrow> (pyexc + unit) \<times> world" where
  "open_for_writing os_open p w =
     (case os_open p (files w) of
        Some e \<Rightarrow> (Inl e, w)
      | None \<Rightarrow> (Inr (), open_w p w))"

definition subprocess_run ::
  "program \<Rightarrow> string list \<Rightarrow> world \<Rightarrow> (pyexc + completed_process) \<times> world" where
  "subprocess_run prog cmd w =
     (case prog cmd (files w) of
        (r, fs) \<Rightarrow> (r, w\<lparr>files := fs, run_calls := run_calls w @ [(cmd, files w)]\<rparr>))"

text \<open>A dictionary literal is an association list; \<^verbatim>\<open>d[k]\<close> raises KeyError.\<close>

definition dict_index :: "('k \<times> 'v) list \<Rightarrow> 'k \<Rightarrow> string \<Rightarrow> pyexc + 'v" where
  "dict_index d k shown =
     (case map_of d k of None \<Rightarrow> Inl (PyExc ''KeyError'' shown) | Some v \<Rightarrow> Inr v)"

definition dict_get :: "('k \<times> 'v) list \<Rightarrow> 'k \<Rightarrow> 'v \<Rightarrow> 'v" where
  "dict_get d k dflt = (case map_of d k of None \<Rightarrow> dflt | Some v \<Rightarrow> v)"

section \<open>The command-line processor (video\_processor\_cli.py)\<close>

text \<open>
  \<^verbatim>\<open>
  def check_ffmpeg():
      try:
          result = subprocess.run(['ffmpeg', '-version'], capture_output=True,
                                  text=True, timeout=5)
          if result.returncode == 0:
              print('FFmpeg available'); return True
          else:
              print('FFmpeg not available'); return False
      except Exception:
          print('FFmpeg not available'); return False
  \<close>
  The body of the \<^verbatim>\<open>try\<close> is a function of its own; \<open>Inl\<close> is an exception leaving it.
\<close>

definition check_ffmpeg_try :: "program \<Rightarrow> world \<Rightarrow> (pyexc + bool) \<times> world" where
  "check_ffmpeg_try prog w =
     (case subprocess_run prog [''ffmpeg'', ''-version''] w of
        (Inl e, w1) \<Rightarrow> (Inl e, w1)
      | (Inr result, w1) \<Rightarrow>
          (if returncode result = 0 then (Inr True, print_out ''FFmpeg available'' w1)
           else (Inr False, print_out ''FFmpeg not available'' w1)))"

definition check_ffmpeg :: "program \<Rightarrow> world \<Rightarrow> (pyexc + bool) \<times> world" where
  "check_ffmpeg prog w =
     (case check_ffmpeg_try prog w of
        (Inr b, w1) \<Rightarrow> (Inr b, w1)
      | (Inl e, w1) \<Rightarrow> (Inr False, print_out ''FFmpeg not available'' w1))"

text \<open>
  \<^verbatim>\<open>
  def get_ffmpeg_version():
      try:
          result = subprocess.run(['ffmpeg', '-version'], ...)
          if result.returncode == 0:
              version_line = result.stdout.split('\n')[0]
              print(version_line); return version_line
          else:
              print('unknown'); return 'unknown'
      except Exception:
          print('unknown'); return 'unknown'
  \<close>
\<close>

definition get_ffmpeg_version_try :: "program \<Rightarrow> world \<Rightarrow> (pyexc + string) \<times> world" where
  "get_ffmpeg_version_try prog w =
     (case subprocess_run prog [''ffmpeg'', ''-version''] w of
        (Inl e, w1) \<Rightarrow> (Inl e, w1)
      | (Inr result, w1) \<Rightarrow>
          (if returncode result = 0
           then (case list_index (split (CHR 0x0A) (stdout result)) 0 of
                   Inl e \<Rightarrow> (Inl e, w1)
                 | Inr version_line \<Rightarrow> (Inr version_line, print_out version_line w1))
           else (Inr ''unknown'', print_out ''unknown'' w1)))"

definition get_ffmpeg_version :: "program \<Rightarrow> world \<Rightarrow> (pyexc + string) \<times> world" where
  "get_ffmpeg_version prog w =
     (case get_ffmpeg_version_try prog w of
        (Inr v, w1) \<Rightarrow> (Inr v, w1)
      | (Inl e, w1) \<Rightarrow> (Inr ''unknown'', print_out ''unknown'' w1))"

text \<open>
  The existence loop shared by both merge functions:
  \<^verbatim>\<open>
  for path in input_paths:
      if not os.path.exists(path): ... return / raise
  \<close>
  It stops at the first path that does not exist.
\<close>

fun first_missing :: "path list \<Rightarrow> world \<Rightarrow> path option" where
  "first_missing [] w = None"
| "first_missing (p # rest) w =
     (if \<not> os_path_exists p w then Some p else first_missing rest w)"

definition concat_file :: path where
  "concat_file = ''concat_list.txt''"

text \<open>
  \<^verbatim>\<open>
  with open(concat_file, 'w') as f:
      for path in input_paths:
          f.write(f"file '{path}'\n")
  \<close>
\<close>

definition write_concat_file :: "path list \<Rightarrow> world \<Rightarrow> world" where
  "write_concat_file input_paths w =
     fold (\<lambda>p. file_write concat_file (''file '' @ [CHR 0x27] @ p @ [CHR 0x27, CHR 0x0A]))
       input_paths (open_w concat_file w)"

definition quality_settings :: "(string \<times> string list) list" where
  "quality_settings =
     [(''low'', [''-crf'', ''28'']),
      (''medium'', [''-crf'', ''23'']),
      (''high'', [''-crf'', ''18''])]"

text \<open>
  The command line, built as the source builds it: the fixed head, the quality
  arguments (\<^verbatim>\<open>quality_settings.get(quality, quality_settings['medium'])\<close>, whose
  default is looked up first), the audio codec, \<^verbatim>\<open>-y\<close> when overwriting, the output.
\<close>

definition merge_cmd :: "string \<Rightarrow> bool \<Rightarrow> path \<Rightarrow> pyexc + string list" where
  "merge_cmd quality overwrite output_path =
     (let cmd = [''ffmpeg'', ''-f'', ''concat'', ''-safe'', ''0'', ''-i'', concat_file,
                 ''-c:v'', ''libx264'', ''-preset'', ''medium'']
      in case dict_index quality_settings ''medium'' ''medium'' of
           Inl e \<Rightarrow> Inl e
         | Inr dflt \<Rightarrow>
             (let cmd = cmd @ dict_get quality_settings quality dflt;
                  cmd = cmd @ [''-c:a'', ''aac''];
                  cmd = (if overwrite then cmd @ [''-y''] else cmd);
                  cmd = cmd @ [output_path]
              in Inr cmd))"

text \<open>
  \<^verbatim>\<open>if os.path.exists(concat_file): os.remove(concat_file)\<close>, which stands both after
  the run and in the handler.
\<close>

definition remove_concat_file :: "world \<Rightarrow> (pyexc + unit) \<times> world" where
  "remove_concat_file w =
     (if os_path_exists concat_file w then os_remove concat_file w else (Inr (), w))"

text \<open>The body of the \<^verbatim>\<open>try\<close> of \<^verbatim>\<open>merge_videos\<close> (source lines 66 to 103).\<close>

definition merge_videos_try ::
  "program \<Rightarrow> path list \<Rightarrow> path \<Rightarrow> string \<Rightarrow> bool \<Rightarrow> world \<Rightarrow> (pyexc + bool) \<times> world" where
  "merge_videos_try prog input_paths output_path quality overwrite w =
     (let w1 = write_concat_file input_paths w
      in case merge_cmd quality overwrite output_path of
           Inl e \<Rightarrow> (Inl e, w1)
         | Inr cmd \<Rightarrow>
             (case subprocess_run prog cmd w1 of
                (Inl e, w2) \<Rightarrow> (Inl e, w2)
              | (Inr result, w2) \<Rightarrow>
                  (case remove_concat_file w2 of
                     (Inl e, w3) \<Rightarrow> (Inl e, w3)
                   | (Inr _, w3) \<Rightarrow>
                       (if returncode result = 0
                        then (Inr True,
                              print_out (''Successfully merged videos to '' @ output_path) w3)
                        else (Inr False,
                              print_err (''Error merging videos: '' @ stderr result) w3)))))"

text \<open>
  \<^verbatim>\<open>merge_videos(input_paths, output_path, quality='medium', overwrite=False)\<close>: the
  two validations, the \<^verbatim>\<open>try\<close>, and the handler
  \<^verbatim>\<open>
  except Exception as e:
      if os.path.exists(concat_file): os.remove(concat_file)
      print(f'Error: {str(e)}', file=sys.stderr)
      return False
  \<close>
  An exception raised inside the handler leaves the function.
\<close>

definition merge_videos ::
  "program \<Rightarrow> path list \<Rightarrow> path \<Rightarrow> string \<Rightarrow> bool \<Rightarrow> world \<Rightarrow> (pyexc + bool) \<times> world" where
  "merge_videos prog input_paths output_path quality overwrite w =
     (if length input_paths < 2
      then (Inr False, print_err ''Error: At least 2 videos required'' w)
      else case first_missing input_paths w of
             Some p \<Rightarrow> (Inr False, print_err (''Error: File not found: '' @ p) w)
           | None \<Rightarrow>
               (case merge_videos_try prog input_paths output_path quality overwrite w of
                  (Inr b, w1) \<Rightarrow> (Inr b, w1)
                | (Inl e, w1) \<Rightarrow>
                    (case remove_concat_file w1 of
                       (Inl e', w2) \<Rightarrow> (Inl e', w2)
                     | (Inr _, w2) \<Rightarrow> (Inr False, print_err (''Error: '' @ exc_str e) w2))))"

section \<open>The web layer's processor (core/video\_processor.py)\<close>

text \<open>
  \<^verbatim>\<open>
  def merge_videos(self, video_files, output_path):
      if not video_files or len(video_files) < 2:
          raise ValueError("At least 2 video files are required for merging")
      for video_file in video_files:
          if not os.path.exists(video_file):
              raise FileNotFoundError(f"Video file not found: {video_file}")
      with open(output_path, 'w') as f:
          f.write("# Placeholder merged video file\n")
          f.write(f"# Merged from {len(video_files)} videos\n")
      return output_path
  \<close>
\<close>

definition VideoProcessor_merge_videos ::
  "opener \<Rightarrow> path list \<Rightarrow> path \<Rightarrow> world \<Rightarrow> (pyexc + path) \<times> world" where
  "VideoProcessor_merge_videos os_open video_files output_path w =
     (if video_files = [] \<or> length video_files < 2
      then (Inl (PyExc ''ValueError'' ''At least 2 video files are required for merging''), w)
      else case first_missing video_files w of
             Some video_file \<Rightarrow>
               (Inl (PyExc ''FileNotFoundError'' (''Video file not found: '' @ video_file)), w)
           | None \<Rightarrow>
               (case open_for_writing os_open output_path w of
                  (Inl e, w1) \<Rightarrow> (Inl e, w1)
                | (Inr _, w1) \<Rightarrow>
                    (let w2 = file_write output_path
                                (''# Placeholder merged video file'' @ [CHR 0x0A]) w1;
                         w3 = file_write output_path
                                (''# Merged from '' @ str_nat (length video_files) @ '' videos''
                                   @ [CHR 0x0A]) w2
                     in (Inr output_path, w3))))"

section \<open>Sample worlds and programs\<close>

text \<open>Two clips on disk, and three behaviours of the transcoder.\<close>

definition two_clips :: world where
  "two_clips =
     \<lparr>files = [''a.mp4'' \<mapsto> ''AAAA'', ''b.mp4'' \<mapsto> ''BBBB''],
      sys_stdout = [], sys_stderr = [], run_calls = []\<rparr>"

definition ffmpeg_ok :: program where
  "ffmpeg_ok cmd fs =
     (Inr \<lparr>returncode = 0, stdout = ''ffmpeg version 6.0'' @ [CHR 0x0A] @ ''built with gcc'',
           stderr = []\<rparr>,
      fs(last cmd \<mapsto> ''merged''))"

definition ffmpeg_fails :: program where
  "ffmpeg_fails cmd fs =
     (Inr \<lparr>returncode = 1, stdout = [], stderr = ''invalid codec''\<rparr>, fs)"

definition ffmpeg_absent :: program where
  "ffmpeg_absent cmd fs =
     (Inl (PyExc ''FileNotFoundError'' ''No such file or directory: ffmpeg''), fs)"

text \<open>
  A working directory with no subdirectories: a path with a directory part cannot be
  opened, any other path can.
\<close>

definition no_subdirectories :: opener where
  "no_subdirectories p fs =
     (if CHR ''/'' \<in> set p
      then Some (PyExc ''FileNotFoundError''
                  (''[Errno 2] No such file or directory: '' @ [CHR 0x27] @ p @ [CHR 0x27]))
      else None)"

text \<open>
  Twelve inputs, all of them on disk (a path may be given more than once).
\<close>

definition twelve_inputs :: "path list" where
  "twelve_inputs =
     [''a.mp4'', ''b.mp4'', ''a.mp4'', ''b.mp4'', ''a.mp4'', ''b.mp4'',
      ''a.mp4'', ''b.mp4'', ''a.mp4'', ''b.mp4'', ''a.mp4'', ''b.mp4'']"

text \<open>
  A fragment of Python's case table, enough for the sample names: the ASCII capitals,
  U+00C9 (E with acute) and U+212A (the Kelvin sign, whose lower case is the letter k).
\<close>

definition sample_lower :: "pystr \<Rightarrow> pystr" where
  "sample_lower s =
     map (\<lambda>c. if 65 \<le> c \<and> c \<le> 90 then c + 32
              else if c = 0xC9 then 0xE9
              else if c = 0x212A then 0x6B
              else c) s"

section \<open>Properties of the string helpers\<close>

lemma rsplit_scan_no_split: "rsplit_scan sep 0 acc xs = [rev xs @ acc]"
  by (induction xs arbitrary: acc) simp_all

lemma rsplit_scan_once:
  "sep \<in> set xs \<Longrightarrow>
   rsplit_scan sep (Suc 0) acc xs =
     [rev (tl (dropWhile (\<lambda>c. c \<noteq> sep) xs)), rev (takeWhile (\<lambda>c. c \<noteq> sep) xs) @ acc]"
proof (induction xs arbitrary: acc)
  case Nil
  then show ?case by simp
next
  case (Cons c cs)
  show ?case
  proof (cases "c = sep")
    case True
    then show ?thesis by (simp add: rsplit_scan_no_split)
  next
    case False
    with Cons.prems have "sep \<in> set cs" by auto
    from Cons.IH [OF this] False show ?thesis by simp
  qed
qed

lemma rsplit_last_piece:
  assumes "sep \<in> set s"
  shows "list_index (rsplit sep 1 s) 1 = Inr (rev (takeWhile (\<lambda>c. c \<noteq> sep) (rev s)))"
proof -
  from assms have "sep \<in> set (rev s)" by simp
  then show ?thesis
    by (simp add: rsplit_def rsplit_scan_once list_index_def)
qed

lemma split_scan_first:
  "\<exists>rest. split_scan sep acc s = (rev acc @ takeWhile (\<lambda>c. c \<noteq> sep) s) # rest"
proof (induction s arbitrary: acc)
  case Nil
  then show ?case by simp
next
  case (Cons c cs)
  show ?case
  proof (cases "c = sep")
    case True
    then show ?thesis by simp
  next
    case False
    from Cons.IH [of "c # acc"] obtain rest where
      "split_scan sep (c # acc) cs = (rev (c # acc) @ takeWhile (\<lambda>c. c \<noteq> sep) cs) # rest"
      by blast
    with False show ?thesis by simp
  qed
qed

lemma split_first_piece:
  "list_index (split sep s) 0 = Inr (takeWhile (\<lambda>c. c \<noteq> sep) s)"
proof -
  from split_scan_first [of sep "[]" s]
  obtain rest where "split sep s = takeWhile (\<lambda>c. c \<noteq> sep) s # rest"
    by (auto simp: split_def)
  then show ?thesis by (simp add: list_index_def)
qed

lemma digit_value_digit_char: "d < 10 \<Longrightarrow> digit_value (digit_char d) = d"
  by (simp add: digit_value_def digit_char_def)

lemma digit_char_is_digit: "d < 10 \<Longrightarrow> digit_char d \<in> set ''0123456789''"
proof -
  assume "d < 10"
  then have "d \<in> {0, 1, 2, 3, 4, 5, 6, 7, 8, 9}" by auto
  moreover have "\<forall>k \<in> {0, 1, 2, 3, 4, 5, 6, 7, 8, 9}. digit_char k \<in> set ''0123456789''"
    by code_simp
  ultimately show ?thesis by blast
qed

lemma digit_char_not_zero: "0 < d \<Longrightarrow> d < 10 \<Longrightarrow> digit_char d \<noteq> CHR ''0''"
proof
  assume d: "0 < d" "d < 10" and eq: "digit_char d = CHR ''0''"
  have "digit_value (CHR ''0'') = 0" by (simp add: digit_value_def)
  with eq digit_value_digit_char [OF d(2)] d(1) show False by simp
qed

lemma str_nat_not_empty: "str_nat n \<noteq> []"
  by (subst str_nat.simps) simp

lemma decimal_value_snoc:
  "decimal_value (s @ [c]) = 10 * decimal_value s + digit_value c"
  by (simp add: decimal_value_def)

lemma decimal_value_str_nat: "decimal_value (str_nat n) = n"
proof (induction n rule: str_nat.induct)
  case (1 n)
  show ?case
  proof (cases "n < 10")
    case True
    then have "str_nat n = [digit_char n]" by (subst str_nat.simps) simp
    with True show ?thesis
      by (simp add: decimal_value_def digit_value_digit_char)
  next
    case False
    then have "str_nat n = str_nat (n div 10) @ [digit_char (n mod 10)]"
      by (subst str_nat.simps) simp
    with "1.IH" [OF False] show ?thesis
      by (simp add: decimal_value_snoc digit_value_digit_char)
  qed
qed

lemma str_nat_digits: "set (str_nat n) \<subseteq> set ''0123456789''"
proof (induction n rule: str_nat.induct)
  case (1 n)
  show ?case
  proof (cases "n < 10")
    case True
    then have "str_nat n = [digit_char n]" by (subst str_nat.simps) simp
    with digit_char_is_digit [OF True] show ?thesis by simp
  next
    case False
    then have eq: "str_nat n = str_nat (n div 10) @ [digit_char (n mod 10)]"
      by (subst str_nat.simps) simp
    have "digit_char (n mod 10) \<in> set ''0123456789''"
      by (rule digit_char_is_digit) simp
    with "1.IH" [OF False] eq show ?thesis by simp
  qed
qed

lemma hd_str_nat: "0 < n \<Longrightarrow> hd (str_nat n) \<noteq> CHR ''0''"
proof (induction n rule: str_nat.induct)
  case (1 n)
  show ?case
  proof (cases "n < 10")
    case True
    then have "str_nat n = [digit_char n]" by (subst str_nat.simps) simp
    with digit_char_not_zero [OF "1.prems" True] show ?thesis by simp
  next
    case False
    then have eq: "str_nat n = str_nat (n div 10) @ [digit_char (n mod 10)]"
      by (subst str_nat.simps) simp
    from False have "0 < n div 10" by simp
    from "1.IH" [OF False this] eq str_nat_not_empty [of "n div 10"] show ?thesis
      by simp
  qed
qed

section \<open>Properties of the file operations\<close>

lemma first_missing_None_iff:
  "first_missing ps w = None \<longleftrightarrow> (\<forall>p \<in> set ps. os_path_exists p w)"
  by (induction ps) simp_all

lemma first_missing_filter:
  "first_missing ps w =
     (case filter (\<lambda>p. \<not> os_path_exists p w) ps of [] \<Rightarrow> None | p # _ \<Rightarrow> Some p)"
  by (induction ps) simp_all

lemma fold_file_write:
  "files w f = Some old \<Longrightarrow>
   fold (\<lambda>p. file_write f (g p)) ps w = w\<lparr>files := (files w)(f \<mapsto> old @ concat (map g ps))\<rparr>"
proof (induction ps arbitrary: w old)
  case Nil
  then show ?case by (simp add: fun_upd_idem)
next
  case (Cons p ps)
  let ?w1 = "w\<lparr>files := (files w)(f \<mapsto> old @ g p)\<rparr>"
  have step: "file_write f (g p) w = ?w1"
    using Cons.prems by (simp add: file_write_def)
  have "files ?w1 f = Some (old @ g p)" by simp
  from Cons.IH [OF this]
  have ih: "fold (\<lambda>p. file_write f (g p)) ps ?w1 =
      ?w1\<lparr>files := (files ?w1)(f \<mapsto> (old @ g p) @ concat (map g ps))\<rparr>" .
  have "fold (\<lambda>p. file_write f (g p)) (p # ps) w =
      fold (\<lambda>p. file_write f (g p)) ps (file_write f (g p) w)"
    by simp
  also have "\<dots> = fold (\<lambda>p. file_write f (g p)) ps ?w1"
    by (simp only: step)
  also note ih
  also have "?w1\<lparr>files := (files ?w1)(f \<mapsto> (old @ g p) @ concat (map g ps))\<rparr> =
      w\<lparr>files := (files w)(f \<mapsto> old @ concat (map g (p # ps)))\<rparr>"
    by simp
  finally show ?case .
qed

lemma write_concat_file_eq:
  "write_concat_file ps w =
     w\<lparr>files := (files w)(concat_file \<mapsto>
          concat (map (\<lambda>p. ''file '' @ [CHR 0x27] @ p @ [CHR 0x27, CHR 0x0A]) ps))\<rparr>"
proof -
  have "files (open_w concat_file w) concat_file = Some []"
    by (simp add: open_w_def)
  from fold_file_write [OF this] show ?thesis
    by (simp add: write_concat_file_def open_w_def)
qed

lemma remove_concat_file_eq:
  "remove_concat_file w = (Inr (), w\<lparr>files := (files w)(concat_file := None)\<rparr>)"
proof (cases "files w concat_file")
  case None
  then show ?thesis
    by (simp add: remove_concat_file_def os_path_exists_def fun_upd_idem)
next
  case (Some old)
  then show ?thesis
    by (simp add: remove_concat_file_def os_path_exists_def os_remove_def)
qed

lemma merge_cmd_eq:
  "merge_cmd quality overwrite output_path =
     Inr ([''ffmpeg'', ''-f'', ''concat'', ''-safe'', ''0'', ''-i'', ''concat_list.txt'',
           ''-c:v'', ''libx264'', ''-preset'', ''medium'', ''-crf'',
           (if quality = ''low'' then ''28'' else if quality = ''high'' then ''18'' else ''23''),
           ''-c:a'', ''aac'']
          @ (if overwrite then [''-y''] else []) @ [output_path])"
  by (simp add: merge_cmd_def dict_index_def dict_get_def quality_settings_def concat_file_def)

section \<open>What a validated merge does\<close>

text \<open>
  Once both validations pass, the call writes the list file, runs the command once on
  the file system that holds it, removes the list file and reports by the outcome.
\<close>

lemma merge_videos_valid:
  assumes "2 \<le> length ps"
    and "\<forall>p \<in> set ps. os_path_exists p w"
    and "merge_cmd quality overwrite out = Inr cmd"
    and "prog cmd (files (write_concat_file ps w)) = (r, fs)"
  shows "merge_videos prog ps out quality overwrite w =
     (let w' = w\<lparr>files := fs(concat_file := None),
                 run_calls := run_calls w @ [(cmd, files (write_concat_file ps w))]\<rparr>
      in case r of
           Inl e \<Rightarrow> (Inr False, print_err (''Error: '' @ exc_str e) w')
         | Inr result \<Rightarrow>
             (if returncode result = 0
              then (Inr True, print_out (''Successfully merged videos to '' @ out) w')
              else (Inr False, print_err (''Error merging videos: '' @ stderr result) w')))"
proof -
  from assms(2) have missing: "first_missing ps w = None"
    by (simp add: first_missing_None_iff)
  have run: "subprocess_run prog cmd (write_concat_file ps w) =
      (r, w\<lparr>files := fs, run_calls := run_calls w @ [(cmd, files (write_concat_file ps w))]\<rparr>)"
    using assms(4) by (simp add: subprocess_run_def write_concat_file_eq)
  show ?thesis
  proof (cases r)
    case (Inl e)
    with assms(1,3) missing run show ?thesis
      by (simp add: merge_videos_def merge_videos_try_def remove_concat_file_eq
            print_err_def)
  next
    case (Inr result)
    with assms(1,3) missing run show ?thesis
      by (simp add: merge_videos_def merge_videos_try_def remove_concat_file_eq
            print_out_def print_err_def)
  qed
qed


lemma merge_videos_valid_returns:
  assumes "2 \<le> length ps"
    and "\<forall>p \<in> set ps. os_path_exists p w"
    and "merge_cmd quality overwrite out = Inr cmd"
    and "prog cmd (files (write_concat_file ps w)) = (r, fs)"
  shows "fst (merge_videos prog ps out quality overwrite w) =
     Inr (case r of Inl e \<Rightarrow> False | Inr result \<Rightarrow> returncode result = 0)"
  using merge_videos_valid [where prog = prog, OF assms]
  by (cases r) (simp_all add: Let_def)

lemma merge_videos_valid_files:
  assumes "2 \<le> length ps"
    and "\<forall>p \<in> set ps. os_path_exists p w"
    and "merge_cmd quality overwrite out = Inr cmd"
    and "prog cmd (files (write_concat_file ps w)) = (r, fs)"
  shows "files (snd (merge_videos prog ps out quality overwrite w)) = fs(concat_file := None)"
  using merge_videos_valid [where prog = prog, OF assms]
  by (cases r) (simp_all add: Let_def print_out_def print_err_def)

lemma merge_videos_valid_run_calls:
  assumes "2 \<le> length ps"
    and "\<forall>p \<in> set ps. os_path_exists p w"
    and "merge_cmd quality overwrite out = Inr cmd"
    and "prog cmd (files (write_concat_file ps w)) = (r, fs)"
  shows "run_calls (snd (merge_videos prog ps out quality overwrite w)) =
     run_calls w @ [(cmd, files (write_concat_file ps w))]"
  using merge_videos_valid [where prog = prog, OF assms]
  by (cases r) (simp_all add: Let_def print_out_def print_err_def)

lemma merge_videos_valid_streams:
  assumes "2 \<le> length ps"
    and "\<forall>p \<in> set ps. os_path_exists p w"
    and "merge_cmd quality overwrite out = Inr cmd"
    and "prog cmd (files (write_concat_file ps w)) = (Inr result, fs)"
  shows "sys_stdout (snd (merge_videos prog ps out quality overwrite w)) =
     (if returncode result = 0
      then sys_stdout w @ [''Successfully merged videos to '' @ out] else sys_stdout w)"
    and "sys_stderr (snd (merge_videos prog ps out quality overwrite w)) =
     (if returncode result = 0
      then sys_stderr w else sys_stderr w @ [''Error merging videos: '' @ stderr result])"
  using merge_videos_valid [where prog = prog, OF assms]
  by (simp_all add: Let_def print_out_def print_err_def)

section \<open>Claims\<close>

text \<open>
  C1.  When a merge passes validation, the list file that the transcoder is given holds
  one entry per input path and nothing else: the text \<^verbatim>\<open>file '<path>'\<close> closed by a
  newline, for each path of the input in the order of the input.  The entries are
  neither reordered nor deduplicated, whatever was at that path before and whatever the
  transcoder then does.
\<close>

theorem merge_manifest_in_input_order:
  assumes "2 \<le> length input_paths"
    and "\<forall>p \<in> set input_paths. os_path_exists p w"
  shows "map snd (run_calls (snd (merge_videos prog input_paths output_path quality overwrite w))) =
     map snd (run_calls w) @
       [(files w)(concat_file \<mapsto>
          concat (map (\<lambda>p. ''file '' @ [CHR 0x27] @ p @ [CHR 0x27, CHR 0x0A]) input_paths))]"
proof -
  obtain cmd where cmd: "merge_cmd quality overwrite output_path = Inr cmd"
    by (simp add: merge_cmd_eq)
  obtain r fs where run: "prog cmd (files (write_concat_file input_paths w)) = (r, fs)"
    by (cases "prog cmd (files (write_concat_file input_paths w))")
  from merge_videos_valid_run_calls [where prog = prog, OF assms cmd run] show ?thesis
    by (simp add: write_concat_file_eq)
qed

theorem merge_manifest_in_input_order_witness:
  "map (\<lambda>call. snd call concat_file)
     (run_calls (snd (merge_videos ffmpeg_ok [''b.mp4'', ''a.mp4'', ''b.mp4'']
        ''out.mp4'' ''high'' True two_clips))) =
   [Some (''file '' @ [CHR 0x27] @ ''b.mp4'' @ [CHR 0x27, CHR 0x0A] @
          ''file '' @ [CHR 0x27] @ ''a.mp4'' @ [CHR 0x27, CHR 0x0A] @
          ''file '' @ [CHR 0x27] @ ''b.mp4'' @ [CHR 0x27, CHR 0x0A])]"
proof -
  have len: "2 \<le> length [''b.mp4'', ''a.mp4'', ''b.mp4'']" by simp
  have ex: "\<forall>p \<in> set [''b.mp4'', ''a.mp4'', ''b.mp4'']. os_path_exists p two_clips"
    by (simp add: os_path_exists_def two_clips_def)
  from merge_manifest_in_input_order [OF len ex, of ffmpeg_ok "''out.mp4''" "''high''" True]
  have "map (\<lambda>fs. fs concat_file)
      (map snd (run_calls (snd (merge_videos ffmpeg_ok [''b.mp4'', ''a.mp4'', ''b.mp4'']
        ''out.mp4'' ''high'' True two_clips)))) =
    [Some (concat (map (\<lambda>p. ''file '' @ [CHR 0x27] @ p @ [CHR 0x27, CHR 0x0A])
        [''b.mp4'', ''a.mp4'', ''b.mp4'']))]"
    by (simp add: two_clips_def)
  then show ?thesis by (simp add: comp_def)
qed

text \<open>
  C2.  When a merge passes validation, the call returns (it raises nothing) and the list
  file is absent from the file system it leaves, whatever the transcoder does: exit
  status 0, another exit status, or an exception from \<^verbatim>\<open>subprocess.run\<close>.
\<close>

theorem merge_removes_manifest:
  assumes "2 \<le> length input_paths"
    and "\<forall>p \<in> set input_paths. os_path_exists p w"
  shows "(\<exists>b. fst (merge_videos prog input_paths output_path quality overwrite w) = Inr b) \<and>
     files (snd (merge_videos prog input_paths output_path quality overwrite w)) concat_file = None"
proof -
  obtain cmd where cmd: "merge_cmd quality overwrite output_path = Inr cmd"
    by (simp add: merge_cmd_eq)
  obtain r fs where run: "prog cmd (files (write_concat_file input_paths w)) = (r, fs)"
    by (cases "prog cmd (files (write_concat_file input_paths w))")
  from merge_videos_valid_returns [where prog = prog, OF assms cmd run] merge_videos_valid_files [where prog = prog, OF assms cmd run]
  show ?thesis by simp
qed

theorem merge_removes_manifest_witness:
  "(\<exists>b. fst (merge_videos ffmpeg_absent [''a.mp4'', ''b.mp4''] ''out.mp4'' ''low'' False
        two_clips) = Inr b) \<and>
   files (snd (merge_videos ffmpeg_absent [''a.mp4'', ''b.mp4''] ''out.mp4'' ''low'' False
        two_clips)) concat_file = None"
proof -
  have len: "2 \<le> length [''a.mp4'', ''b.mp4'']" by simp
  have ex: "\<forall>p \<in> set [''a.mp4'', ''b.mp4'']. os_path_exists p two_clips"
    by (simp add: os_path_exists_def two_clips_def)
  from merge_removes_manifest [OF len ex, of ffmpeg_absent "''out.mp4''" "''low''" False]
  show ?thesis .
qed

text \<open>
  C3.  When a merge passes validation and \<^verbatim>\<open>subprocess.run\<close> completes on the command
  and the file system the merge gives it, the merge returns true exactly when the exit
  status is 0.  On status 0 it reports success with the output path on standard output
  and nothing on standard error; on any other status it returns false and reports the
  transcoder's captured standard error text, whole, on standard error.
\<close>

theorem merge_result_follows_exit_status:
  assumes "2 \<le> length input_paths"
    and "\<forall>p \<in> set input_paths. os_path_exists p w"
    and "merge_cmd quality overwrite output_path = Inr cmd"
    and "fst (prog cmd (files (write_concat_file input_paths w))) = Inr result"
  shows "fst (merge_videos prog input_paths output_path quality overwrite w) =
       Inr (returncode result = 0) \<and>
     sys_stdout (snd (merge_videos prog input_paths output_path quality overwrite w)) =
       (if returncode result = 0
        then sys_stdout w @ [''Successfully merged videos to '' @ output_path]
        else sys_stdout w) \<and>
     sys_stderr (snd (merge_videos prog input_paths output_path quality overwrite w)) =
       (if returncode result = 0 then sys_stderr w
        else sys_stderr w @ [''Error merging videos: '' @ stderr result])"
proof -
  from assms(4) obtain fs where
    run: "prog cmd (files (write_concat_file input_paths w)) = (Inr result, fs)"
    by (cases "prog cmd (files (write_concat_file input_paths w))") simp
  from merge_videos_valid_returns [where prog = prog, OF assms(1-3) run]
    merge_videos_valid_streams [where prog = prog, OF assms(1-3) run]
  show ?thesis by simp
qed

theorem merge_result_follows_exit_status_witness:
  "fst (merge_videos ffmpeg_fails [''a.mp4'', ''b.mp4''] ''out.mp4'' ''high'' True two_clips) =
     Inr False \<and>
   sys_stdout (snd (merge_videos ffmpeg_fails [''a.mp4'', ''b.mp4''] ''out.mp4'' ''high'' True
     two_clips)) = [] \<and>
   sys_stderr (snd (merge_videos ffmpeg_fails [''a.mp4'', ''b.mp4''] ''out.mp4'' ''high'' True
     two_clips)) = [''Error merging videos: invalid codec'']"
proof -
  have len: "2 \<le> length [''a.mp4'', ''b.mp4'']" by simp
  have ex: "\<forall>p \<in> set [''a.mp4'', ''b.mp4'']. os_path_exists p two_clips"
    by (simp add: os_path_exists_def two_clips_def)
  obtain cmd where cmd: "merge_cmd ''high'' True ''out.mp4'' = Inr cmd"
    by (simp add: merge_cmd_eq)
  have run: "fst (ffmpeg_fails cmd (files (write_concat_file [''a.mp4'', ''b.mp4''] two_clips))) =
      Inr \<lparr>returncode = 1, stdout = [], stderr = ''invalid codec''\<rparr>"
    by (simp add: ffmpeg_fails_def)
  from merge_result_follows_exit_status [where prog = ffmpeg_fails, OF len ex cmd run] show ?thesis
    by (simp add: two_clips_def)
qed


text \<open>
  C4.  The command line that a validated merge runs carries, after the fixed head,
  \<^verbatim>\<open>-crf 28\<close> for the tier low, \<^verbatim>\<open>-crf 23\<close> for medium, \<^verbatim>\<open>-crf 18\<close> for high, and for
  every other tier text what medium gets, \<^verbatim>\<open>-crf 23\<close>; no tier makes the merge fail.
\<close>

theorem merge_quality_arguments:
  assumes "2 \<le> length input_paths"
    and "\<forall>p \<in> set input_paths. os_path_exists p w"
  shows "map fst (run_calls (snd (merge_videos prog input_paths output_path quality overwrite w))) =
     map fst (run_calls w) @
       [[''ffmpeg'', ''-f'', ''concat'', ''-safe'', ''0'', ''-i'', ''concat_list.txt'',
         ''-c:v'', ''libx264'', ''-preset'', ''medium'', ''-crf'',
         (if quality = ''low'' then ''28''
          else if quality = ''medium'' then ''23''
          else if quality = ''high'' then ''18''
          else ''23''),
         ''-c:a'', ''aac'']
        @ (if overwrite then [''-y''] else []) @ [output_path]]"
proof -
  obtain cmd where cmd: "merge_cmd quality overwrite output_path = Inr cmd"
    by (simp add: merge_cmd_eq)
  obtain r fs where run: "prog cmd (files (write_concat_file input_paths w)) = (r, fs)"
    by (cases "prog cmd (files (write_concat_file input_paths w))")
  from cmd have "cmd =
      [''ffmpeg'', ''-f'', ''concat'', ''-safe'', ''0'', ''-i'', ''concat_list.txt'',
       ''-c:v'', ''libx264'', ''-preset'', ''medium'', ''-crf'',
       (if quality = ''low'' then ''28'' else if quality = ''high'' then ''18'' else ''23''),
       ''-c:a'', ''aac'']
      @ (if overwrite then [''-y''] else []) @ [output_path]"
    by (simp only: merge_cmd_eq sum.inject)
  with merge_videos_valid_run_calls [where prog = prog, OF assms cmd run] show ?thesis
    by simp
qed

theorem merge_quality_arguments_witness:
  "map fst (run_calls (snd (merge_videos ffmpeg_ok [''a.mp4'', ''b.mp4''] ''out.mp4''
      ''ultra'' False two_clips))) =
   [[''ffmpeg'', ''-f'', ''concat'', ''-safe'', ''0'', ''-i'', ''concat_list.txt'',
     ''-c:v'', ''libx264'', ''-preset'', ''medium'', ''-crf'', ''23'',
     ''-c:a'', ''aac'', ''out.mp4'']]"
proof -
  have len: "2 \<le> length [''a.mp4'', ''b.mp4'']" by simp
  have ex: "\<forall>p \<in> set [''a.mp4'', ''b.mp4'']. os_path_exists p two_clips"
    by (simp add: os_path_exists_def two_clips_def)
  from merge_quality_arguments [OF len ex, of ffmpeg_ok "''out.mp4''" "''ultra''" False]
  show ?thesis by (simp add: two_clips_def)
qed

text \<open>
  C5.  With fewer than two input paths, the empty list included, the merge returns false
  with the message that at least two videos are required; it leaves the file system as
  it found it (no list file is written) and calls \<^verbatim>\<open>subprocess.run\<close> not once.
\<close>

theorem merge_insufficient_inputs:
  assumes "length input_paths < 2"
  shows "fst (merge_videos prog input_paths output_path quality overwrite w) = Inr False \<and>
     sys_stderr (snd (merge_videos prog input_paths output_path quality overwrite w)) =
       sys_stderr w @ [''Error: At least 2 videos required''] \<and>
     files (snd (merge_videos prog input_paths output_path quality overwrite w)) = files w \<and>
     run_calls (snd (merge_videos prog input_paths output_path quality overwrite w)) =
       run_calls w"
  using assms by (simp add: merge_videos_def print_err_def)

theorem merge_insufficient_inputs_witness:
  "fst (merge_videos ffmpeg_ok [''a.mp4''] ''out.mp4'' ''medium'' False two_clips) = Inr False \<and>
   sys_stderr (snd (merge_videos ffmpeg_ok [''a.mp4''] ''out.mp4'' ''medium'' False two_clips)) =
     [''Error: At least 2 videos required''] \<and>
   files (snd (merge_videos ffmpeg_ok [''a.mp4''] ''out.mp4'' ''medium'' False two_clips))
     concat_file = None \<and>
   run_calls (snd (merge_videos ffmpeg_ok [''a.mp4''] ''out.mp4'' ''medium'' False two_clips)) = []"
proof -
  have len: "length [''a.mp4''] < 2" by simp
  from merge_insufficient_inputs [OF len, of ffmpeg_ok "''out.mp4''" "''medium''" False two_clips]
  show ?thesis by (simp add: two_clips_def concat_file_def)
qed

text \<open>
  C6.  With at least two input paths of which one or more do not exist, the merge
  returns false with one message, naming the first path of the input, in input order,
  that does not exist; it leaves the file system as it found it and calls
  \<^verbatim>\<open>subprocess.run\<close> not once.
\<close>

theorem merge_first_missing_file:
  assumes "2 \<le> length input_paths"
    and "\<exists>p \<in> set input_paths. \<not> os_path_exists p w"
  shows "fst (merge_videos prog input_paths output_path quality overwrite w) = Inr False \<and>
     sys_stderr (snd (merge_videos prog input_paths output_path quality overwrite w)) =
       sys_stderr w @
         [''Error: File not found: '' @ hd (filter (\<lambda>p. \<not> os_path_exists p w) input_paths)] \<and>
     files (snd (merge_videos prog input_paths output_path quality overwrite w)) = files w \<and>
     run_calls (snd (merge_videos prog input_paths output_path quality overwrite w)) =
       run_calls w"
proof -
  from assms(2) have "filter (\<lambda>p. \<not> os_path_exists p w) input_paths \<noteq> []"
    by (simp add: filter_empty_conv)
  then obtain p rest where "filter (\<lambda>p. \<not> os_path_exists p w) input_paths = p # rest"
    by (cases "filter (\<lambda>p. \<not> os_path_exists p w) input_paths") auto
  then have "first_missing input_paths w = Some p"
    and "hd (filter (\<lambda>p. \<not> os_path_exists p w) input_paths) = p"
    by (simp_all add: first_missing_filter)
  with assms(1) show ?thesis
    by (simp add: merge_videos_def print_err_def)
qed

theorem merge_first_missing_file_witness:
  "fst (merge_videos ffmpeg_ok [''a.mp4'', ''y.mp4'', ''b.mp4'', ''x.mp4''] ''out.mp4''
      ''medium'' False two_clips) = Inr False \<and>
   sys_stderr (snd (merge_videos ffmpeg_ok [''a.mp4'', ''y.mp4'', ''b.mp4'', ''x.mp4'']
      ''out.mp4'' ''medium'' False two_clips)) = [''Error: File not found: y.mp4''] \<and>
   files (snd (merge_videos ffmpeg_ok [''a.mp4'', ''y.mp4'', ''b.mp4'', ''x.mp4'']
      ''out.mp4'' ''medium'' False two_clips)) concat_file = None \<and>
   run_calls (snd (merge_videos ffmpeg_ok [''a.mp4'', ''y.mp4'', ''b.mp4'', ''x.mp4'']
      ''out.mp4'' ''medium'' False two_clips)) = []"
proof -
  have len: "2 \<le> length [''a.mp4'', ''y.mp4'', ''b.mp4'', ''x.mp4'']" by simp
  have ex: "\<exists>p \<in> set [''a.mp4'', ''y.mp4'', ''b.mp4'', ''x.mp4'']. \<not> os_path_exists p two_clips"
    by (simp add: os_path_exists_def two_clips_def)
  from merge_first_missing_file [OF len ex, of ffmpeg_ok "''out.mp4''" "''medium''" False]
  show ?thesis by (simp add: two_clips_def os_path_exists_def concat_file_def)
qed

text \<open>
  C7.  \<open>check_ffmpeg\<close> raises nothing and returns a boolean for every behaviour of the
  probe: a completed run with any exit status, a missing executable, a timeout, any
  other exception.  The boolean is true exactly when the run completes with exit
  status 0.
\<close>

theorem check_ffmpeg_total:
  "\<exists>b. fst (check_ffmpeg prog w) = Inr b \<and>
     (b \<longleftrightarrow> (\<exists>result. fst (prog [''ffmpeg'', ''-version''] (files w)) = Inr result \<and>
                  returncode result = 0))"
proof (cases "prog [''ffmpeg'', ''-version''] (files w)")
  case (Pair r fs)
  then show ?thesis
    by (cases r)
      (auto simp add: check_ffmpeg_def check_ffmpeg_try_def subprocess_run_def)
qed

theorem check_ffmpeg_total_witness:
  "fst (check_ffmpeg ffmpeg_absent two_clips) = Inr False \<and>
   fst (check_ffmpeg ffmpeg_fails two_clips) = Inr False \<and>
   fst (check_ffmpeg ffmpeg_ok two_clips) = Inr True"
  using check_ffmpeg_total [of ffmpeg_absent two_clips]
    check_ffmpeg_total [of ffmpeg_fails two_clips]
    check_ffmpeg_total [of ffmpeg_ok two_clips]
  by (auto simp add: ffmpeg_absent_def ffmpeg_fails_def ffmpeg_ok_def)

text \<open>
  C8.  \<open>get_ffmpeg_version\<close> raises nothing.  When the probe completes with exit status
  0 it returns the first line of the captured standard output, unchanged: the text
  before the first newline.  When the probe completes with another status or raises
  (missing executable, timeout, anything else) it returns the text \<^verbatim>\<open>unknown\<close>.
\<close>

theorem get_ffmpeg_version_first_line:
  "fst (get_ffmpeg_version prog w) =
     Inr (case fst (prog [''ffmpeg'', ''-version''] (files w)) of
            Inl e \<Rightarrow> ''unknown''
          | Inr result \<Rightarrow>
              if returncode result = 0
              then takeWhile (\<lambda>c. c \<noteq> CHR 0x0A) (stdout result)
              else ''unknown'')"
proof (cases "prog [''ffmpeg'', ''-version''] (files w)")
  case (Pair r fs)
  then show ?thesis
    by (cases r)
      (simp_all add: get_ffmpeg_version_def get_ffmpeg_version_try_def subprocess_run_def
        split_first_piece)
qed

theorem get_ffmpeg_version_first_line_witness:
  "fst (get_ffmpeg_version ffmpeg_ok two_clips) = Inr ''ffmpeg version 6.0'' \<and>
   fst (get_ffmpeg_version ffmpeg_fails two_clips) = Inr ''unknown'' \<and>
   fst (get_ffmpeg_version ffmpeg_absent two_clips) = Inr ''unknown''"
  using get_ffmpeg_version_first_line [of ffmpeg_ok two_clips]
    get_ffmpeg_version_first_line [of ffmpeg_fails two_clips]
    get_ffmpeg_version_first_line [of ffmpeg_absent two_clips]
  by (simp add: ffmpeg_absent_def ffmpeg_fails_def ffmpeg_ok_def)

text \<open>
  C9 as the program has it.  For at least two input files that all exist, the web
  layer's merge calls \<^verbatim>\<open>subprocess.run\<close> not once, and what it does turns on whether
  the output path opens for writing.  When it opens, the merge returns the output path
  it was given and leaves at that path exactly two lines,
  \<^verbatim>\<open># Placeholder merged video file\<close> and \<^verbatim>\<open># Merged from N videos\<close>; N is the decimal
  numeral of the number of inputs: a text of digits with no leading zero that denotes
  that number.  The text depends on the number of inputs alone, not on what the input
  files hold, and the function has no quality parameter.  When the open is refused, its
  exception leaves the function and the file system stays as it was.
\<close>

theorem web_merge_placeholder_or_open_error:
  assumes "2 \<le> length video_files"
    and "\<forall>p \<in> set video_files. os_path_exists p w"
  shows "run_calls (snd (VideoProcessor_merge_videos os_open video_files output_path w)) =
       run_calls w \<and>
     (case os_open output_path (files w) of
        Some e \<Rightarrow>
          fst (VideoProcessor_merge_videos os_open video_files output_path w) = Inl e \<and>
          files (snd (VideoProcessor_merge_videos os_open video_files output_path w)) = files w
      | None \<Rightarrow>
          fst (VideoProcessor_merge_videos os_open video_files output_path w) =
            Inr output_path \<and>
          files (snd (VideoProcessor_merge_videos os_open video_files output_path w)) =
            (files w)(output_path \<mapsto>
               ''# Placeholder merged video file'' @ [CHR 0x0A] @
               ''# Merged from '' @ str_nat (length video_files) @ '' videos'' @ [CHR 0x0A])) \<and>
     set (str_nat (length video_files)) \<subseteq> set ''0123456789'' \<and>
     hd (str_nat (length video_files)) \<noteq> CHR ''0'' \<and>
     decimal_value (str_nat (length video_files)) = length video_files"
proof -
  from assms(2) have missing: "first_missing video_files w = None"
    by (simp add: first_missing_None_iff)
  from assms(1) have nonempty: "video_files \<noteq> []" and positive: "0 < length video_files"
    by auto
  have run: "run_calls (snd (VideoProcessor_merge_videos os_open video_files output_path w)) =
      run_calls w"
    using assms(1) missing nonempty
    by (cases "os_open output_path (files w)")
      (simp_all add: VideoProcessor_merge_videos_def open_for_writing_def Let_def
        open_w_def file_write_def)
  have outcome: "case os_open output_path (files w) of
        Some e \<Rightarrow>
          fst (VideoProcessor_merge_videos os_open video_files output_path w) = Inl e \<and>
          files (snd (VideoProcessor_merge_videos os_open video_files output_path w)) = files w
      | None \<Rightarrow>
          fst (VideoProcessor_merge_videos os_open video_files output_path w) =
            Inr output_path \<and>
          files (snd (VideoProcessor_merge_videos os_open video_files output_path w)) =
            (files w)(output_path \<mapsto>
               ''# Placeholder merged video file'' @ [CHR 0x0A] @
               ''# Merged from '' @ str_nat (length video_files) @ '' videos'' @ [CHR 0x0A])"
    using assms(1) missing nonempty
    by (cases "os_open output_path (files w)")
      (simp_all add: VideoProcessor_merge_videos_def open_for_writing_def Let_def
        open_w_def file_write_def)
  from run outcome str_nat_digits [of "length video_files"] hd_str_nat [OF positive]
    decimal_value_str_nat [of "length video_files"]
  show ?thesis by blast
qed

theorem web_merge_placeholder_or_open_error_witness:
  "fst (VideoProcessor_merge_videos no_subdirectories twelve_inputs ''out.mp4'' two_clips) =
     Inr ''out.mp4'' \<and>
   files (snd (VideoProcessor_merge_videos no_subdirectories twelve_inputs ''out.mp4''
     two_clips)) ''out.mp4'' =
     Some (''# Placeholder merged video file'' @ [CHR 0x0A] @
           ''# Merged from 12 videos'' @ [CHR 0x0A]) \<and>
   run_calls (snd (VideoProcessor_merge_videos no_subdirectories twelve_inputs ''out.mp4''
     two_clips)) = [] \<and>
   fst (VideoProcessor_merge_videos no_subdirectories twelve_inputs ''nodir/out.mp4''
     two_clips) =
     Inl (PyExc ''FileNotFoundError''
       (''[Errno 2] No such file or directory: '' @ [CHR 0x27] @ ''nodir/out.mp4'' @ [CHR 0x27])) \<and>
   files (snd (VideoProcessor_merge_videos no_subdirectories twelve_inputs ''nodir/out.mp4''
     two_clips)) = files two_clips"
proof -
  have len: "2 \<le> length twelve_inputs" by (simp add: twelve_inputs_def)
  have ex: "\<forall>p \<in> set twelve_inputs. os_path_exists p two_clips"
    by (simp add: twelve_inputs_def os_path_exists_def two_clips_def)
  have opens: "no_subdirectories ''out.mp4'' (files two_clips) = None"
    by (simp add: no_subdirectories_def)
  have twelve: "str_nat (length twelve_inputs) = ''12''" by code_simp
  have empty: "run_calls two_clips = []" by (simp add: two_clips_def)
  have refused: "no_subdirectories ''nodir/out.mp4'' (files two_clips) =
      Some (PyExc ''FileNotFoundError''
        (''[Errno 2] No such file or directory: '' @ [CHR 0x27] @ ''nodir/out.mp4'' @ [CHR 0x27]))"
    by (simp add: no_subdirectories_def)
  from web_merge_placeholder_or_open_error [OF len ex, of no_subdirectories "''out.mp4''"]
    web_merge_placeholder_or_open_error [OF len ex, of no_subdirectories "''nodir/out.mp4''"]
  show ?thesis by (simp add: opens refused twelve empty)
qed

text \<open>
  The claim as the specification words it promises the placeholder and the returned
  path for every output path.  In a working directory with no subdirectories the output
  path \<^verbatim>\<open>nodir/out.mp4\<close> does not open: the merge of two existing inputs raises
  FileNotFoundError, returns no path and writes no file.
\<close>

theorem web_merge_unopenable_output_counterexample:
  "2 \<le> length [''a.mp4'', ''b.mp4''] \<and>
   os_path_exists ''a.mp4'' two_clips \<and> os_path_exists ''b.mp4'' two_clips \<and>
   fst (VideoProcessor_merge_videos no_subdirectories [''a.mp4'', ''b.mp4''] ''nodir/out.mp4''
     two_clips) =
     Inl (PyExc ''FileNotFoundError''
       (''[Errno 2] No such file or directory: '' @ [CHR 0x27] @ ''nodir/out.mp4'' @ [CHR 0x27])) \<and>
   fst (VideoProcessor_merge_videos no_subdirectories [''a.mp4'', ''b.mp4''] ''nodir/out.mp4''
     two_clips) \<noteq> Inr ''nodir/out.mp4'' \<and>
   files (snd (VideoProcessor_merge_videos no_subdirectories [''a.mp4'', ''b.mp4''] ''nodir/out.mp4''
     two_clips)) ''nodir/out.mp4'' = None"
  by (simp add: VideoProcessor_merge_videos_def open_for_writing_def no_subdirectories_def
    os_path_exists_def two_clips_def)

text \<open>
  C10.  For every file name, every set of extensions and whatever the case table of the
  runtime is, \<open>allowed_file\<close> raises nothing and answers true exactly when the name
  contains a dot and the text after its last dot, put in lower case by that table,
  belongs to the set.  A name with no dot is rejected, and only the final extension
  counts.
\<close>

theorem allowed_file_last_extension:
  "allowed_file str_lower f E =
     Inr (full_stop \<in> set f \<and> str_lower (after_last_dot f) \<in> E)"
proof (cases "full_stop \<in> set f")
  case True
  from rsplit_last_piece [OF this] True show ?thesis
    by (simp add: allowed_file_def after_last_dot_def)
next
  case False
  then show ?thesis by (simp add: allowed_file_def)
qed

theorem allowed_file_last_extension_witness:
  "allowed_file sample_lower (py ''clip.mp4.EXE'') ALLOWED_EXTENSIONS = Inr False \<and>
   allowed_file sample_lower (py ''holiday.tar.MP4'') ALLOWED_EXTENSIONS = Inr True \<and>
   allowed_file sample_lower (py ''mp4'') ALLOWED_EXTENSIONS = Inr False \<and>
   allowed_file sample_lower (py ''x.M'' @ [0x212A] @ py ''V'') ALLOWED_EXTENSIONS = Inr True \<and>
   allowed_file sample_lower (py ''x.'' @ [0xC9]) {[0xE9]} = Inr True"
proof -
  have exe: "sample_lower (after_last_dot (py ''clip.mp4.EXE'')) \<notin> ALLOWED_EXTENSIONS"
    by code_simp
  have mp4: "sample_lower (after_last_dot (py ''holiday.tar.MP4'')) \<in> ALLOWED_EXTENSIONS"
    by code_simp
  have none: "full_stop \<notin> set (py ''mp4'')" by code_simp
  have mkv: "full_stop \<in> set (py ''x.M'' @ [0x212A] @ py ''V'') \<and>
      sample_lower (after_last_dot (py ''x.M'' @ [0x212A] @ py ''V'')) \<in> ALLOWED_EXTENSIONS"
    by code_simp
  have acute: "full_stop \<in> set (py ''x.'' @ [0xC9]) \<and>
      sample_lower (after_last_dot (py ''x.'' @ [0xC9])) \<in> {[0xE9]}"
    by code_simp
  have dots: "full_stop \<in> set (py ''clip.mp4.EXE'') \<and> full_stop \<in> set (py ''holiday.tar.MP4'')"
    by code_simp
  from exe mp4 none mkv acute dots
    allowed_file_last_extension [of sample_lower "py ''clip.mp4.EXE''" ALLOWED_EXTENSIONS]
    allowed_file_last_extension [of sample_lower "py ''holiday.tar.MP4''" ALLOWED_EXTENSIONS]
    allowed_file_last_extension [of sample_lower "py ''mp4''" ALLOWED_EXTENSIONS]
    allowed_file_last_extension [of sample_lower "py ''x.M'' @ [0x212A] @ py ''V''"
      ALLOWED_EXTENSIONS]
    allowed_file_last_extension [of sample_lower "py ''x.'' @ [0xC9]" "{[0xE9]}"]
  show ?thesis by simp
qed

end
